theory Spec2Isabelle
  imports Complex_Main
begin

section \<open>Python values and exceptions\<close>

text \<open>
  The values a JSON column or a request body can hold. \<open>frequency_config\<close> is a
  \<open>Dict[str, Any]\<close>: an association list, looked up with \<open>map_of\<close> (the first
  binding of a key counts). Floats are left out of the model.
\<close>

datatype pyval =
    PNone
  | PBool bool
  | PInt int
  | PStr string
  | PList "pyval list"
  | PDict "(string \<times> pyval) list"

type_synonym pydict = "(string \<times> pyval) list"

text \<open>
  The exceptions of the program. \<open>KeyError\<close> carries the missing key, every other
  constructor carries the text that \<open>str(e)\<close> gives.
\<close>

datatype error =
    KeyError string
  | ValueError string
  | TypeError string
  | AttributeError string
  | JobLookupError string
  | ConflictingIdError string
  | HTTPError string
  | DatabaseError string

text \<open>\<open>str(e)\<close>: a \<open>KeyError\<close> prints the repr of its key, the others their message.\<close>

fun str_exc :: "error \<Rightarrow> string" where
  "str_exc (KeyError k) = [CHR 0x27] @ k @ [CHR 0x27]"
| "str_exc (ValueError m) = m"
| "str_exc (TypeError m) = m"
| "str_exc (AttributeError m) = m"
| "str_exc (JobLookupError m) = m"
| "str_exc (ConflictingIdError m) = m"
| "str_exc (HTTPError m) = m"
| "str_exc (DatabaseError m) = m"

text \<open>\<open>key in d\<close>, \<open>d[key]\<close> (raises \<open>KeyError\<close>) and \<open>d.get(key, default)\<close>.\<close>

definition contains :: "pydict \<Rightarrow> string \<Rightarrow> bool" where
  "contains d k = (case map_of d k of None \<Rightarrow> False | Some v \<Rightarrow> True)"

definition getitem :: "pydict \<Rightarrow> string \<Rightarrow> error + pyval" where
  "getitem d k = (case map_of d k of None \<Rightarrow> Inl (KeyError k) | Some v \<Rightarrow> Inr v)"

definition dict_get :: "pydict \<Rightarrow> string \<Rightarrow> pyval \<Rightarrow> pyval" where
  "dict_get d k dflt = (case map_of d k of None \<Rightarrow> dflt | Some v \<Rightarrow> v)"

text \<open>The truth value of a Python value, as \<open>if v:\<close> tests it.\<close>

fun truthy :: "pyval \<Rightarrow> bool" where
  "truthy PNone = False"
| "truthy (PBool b) = b"
| "truthy (PInt n) = (n \<noteq> 0)"
| "truthy (PStr s) = (s \<noteq> [])"
| "truthy (PList xs) = (xs \<noteq> [])"
| "truthy (PDict kvs) = (kvs \<noteq> [])"

text \<open>\<open>int(x)\<close> on a float: truncation towards zero. Clock readings are reals.\<close>

type_synonym time = real

definition py_int :: "real \<Rightarrow> int" where
  "py_int x = (if 0 \<le> x then \<lfloor>x\<rfloor> else \<lceil>x\<rceil>)"


section \<open>models.py\<close>

datatype JobType =
    EMAIL_NOTIFICATION
  | DATA_BACKUP
  | REPORT_GENERATION
  | API_CALL
  | FILE_CLEANUP
  | CUSTOM

fun JobType_value :: "JobType \<Rightarrow> string" where
  "JobType_value EMAIL_NOTIFICATION = ''email_notification''"
| "JobType_value DATA_BACKUP = ''data_backup''"
| "JobType_value REPORT_GENERATION = ''report_generation''"
| "JobType_value API_CALL = ''api_call''"
| "JobType_value FILE_CLEANUP = ''file_cleanup''"
| "JobType_value CUSTOM = ''custom''"

datatype FrequencyType = CRON | INTERVAL | DATE

fun FrequencyType_value :: "FrequencyType \<Rightarrow> string" where
  "FrequencyType_value CRON = ''cron''"
| "FrequencyType_value INTERVAL = ''interval''"
| "FrequencyType_value DATE = ''date''"

datatype LogStatus = SUCCESS | ERROR | RUNNING

text \<open>
  \<open>SchedulerCreate.validate_frequency_config(cls, v, values)\<close>. The second argument
  is \<open>values.get('frequency')\<close>: \<open>None\<close> when the field \<open>frequency\<close> did not
  validate. A member of the enum is never falsy, so \<open>not frequency_type\<close> holds for
  \<open>None\<close> only. A \<open>ValueError\<close> raised here is what pydantic reports as its
  \<open>ValidationError\<close>.
\<close>

definition valid_keys :: "string list" where
  "valid_keys = [''seconds'', ''minutes'', ''hours'', ''days'']"

definition validate_frequency_config :: "pydict \<Rightarrow> FrequencyType option \<Rightarrow> error + pydict" where
  "validate_frequency_config v frequency_type =
     (case frequency_type of
        None \<Rightarrow> Inr v
      | Some CRON \<Rightarrow>
          if \<not> contains v ''cron_expression''
          then Inl (ValueError ''cron_expression is required for cron frequency'')
          else Inr v
      | Some INTERVAL \<Rightarrow>
          if \<not> list_ex (contains v) valid_keys
          then Inl (ValueError
            ''At least one interval (seconds, minutes, hours, days) must be specified'')
          else Inr v
      | Some DATE \<Rightarrow>
          if \<not> contains v ''run_date''
          then Inl (ValueError ''run_date is required for date frequency'')
          else Inr v)"


section \<open>The scheduling library, as scheduler.py uses it\<close>

text \<open>
  The trigger classes, the job store and the executor belong to the scheduling library,
  which is not part of the repository. A trigger is the constructor call as the source
  writes it, with the arguments it passes:
  \<open>CronTrigger.from_crontab(expr, timezone=tz)\<close>,
  \<open>IntervalTrigger(**frequency_config)\<close> and \<open>DateTrigger(run_date=d)\<close>.
  Whether the library's constructor accepts the arguments or raises is a parameter of
  the model (\<open>Some e\<close>: the constructor raises \<open>e\<close>), so every theorem below holds for
  whatever the library decides.
\<close>

datatype trigger =
    CronTrigger pyval pyval
  | IntervalTrigger pydict
  | DateTrigger pyval

type_synonym apscheduler = "trigger \<Rightarrow> error option"

definition construct :: "apscheduler \<Rightarrow> trigger \<Rightarrow> error + trigger" where
  "construct lib t = (case lib t of None \<Rightarrow> Inr t | Some e \<Rightarrow> Inl e)"

text \<open>
  An entry of the job store: the fields that \<open>add_job\<close> receives from the source
  (\<open>trigger\<close>, \<open>args=[scheduler_id, job_type]\<close>, \<open>max_instances\<close>), whether the job is
  paused, and the library's clock reading when the trigger was handed over.
\<close>

record job =
  trigger :: trigger
  args :: "string \<times> string"
  max_instances :: nat
  paused :: bool
  scheduled_at :: time

type_synonym jobstore = "string \<rightharpoonup> job"

text \<open>
  Modelled from the spec: the job store of the library, behind
  \<open>scheduler.add_job(func, trigger, id, args, replace_existing, max_instances)\<close>, is
  not under src/. The registry is an in-memory mapping from job id to the registration;
  an add under an id that is already present replaces the registration when
  \<open>replace_existing\<close> is set, and fails otherwise.
\<close>

definition add_job ::
  "jobstore \<Rightarrow> time \<Rightarrow> trigger \<Rightarrow> string \<Rightarrow> string \<times> string \<Rightarrow> bool \<Rightarrow> nat
     \<Rightarrow> error + jobstore" where
  "add_job store now trig job_id job_args replace_existing max_inst =
     (case store job_id of
        Some old \<Rightarrow>
          if replace_existing
          then Inr (store(job_id \<mapsto>
                 \<lparr>trigger = trig, args = job_args, max_instances = max_inst,
                  paused = False, scheduled_at = now\<rparr>))
          else Inl (ConflictingIdError job_id)
      | None \<Rightarrow>
          Inr (store(job_id \<mapsto>
                 \<lparr>trigger = trig, args = job_args, max_instances = max_inst,
                  paused = False, scheduled_at = now\<rparr>)))"

text \<open>
  Modelled from the spec: \<open>modify_job(id, trigger=t)\<close> of the library is not under
  src/. It replaces the trigger of a registered job; for an id that is not registered it
  fails with no change of state (\<open>NotFoundError\<close>, the library's \<open>JobLookupError\<close>).
\<close>

definition modify_job :: "jobstore \<Rightarrow> time \<Rightarrow> string \<Rightarrow> trigger \<Rightarrow> error + jobstore" where
  "modify_job store now job_id trig =
     (case store job_id of
        None \<Rightarrow> Inl (JobLookupError job_id)
      | Some j \<Rightarrow> Inr (store(job_id \<mapsto> j\<lparr>trigger := trig, scheduled_at := now\<rparr>)))"

text \<open>
  Modelled from the spec: \<open>pause_job(id)\<close>, \<open>resume_job(id)\<close> and
  \<open>remove_job(id)\<close> of the library are not under src/. They toggle the active flag
  of a registered job or delete it from the registry; for an id that is not registered
  they fail with no change of state.
\<close>

definition pause_job :: "jobstore \<Rightarrow> string \<Rightarrow> error + jobstore" where
  "pause_job store job_id =
     (case store job_id of
        None \<Rightarrow> Inl (JobLookupError job_id)
      | Some j \<Rightarrow> Inr (store(job_id \<mapsto> j\<lparr>paused := True\<rparr>)))"

definition resume_job :: "jobstore \<Rightarrow> string \<Rightarrow> error + jobstore" where
  "resume_job store job_id =
     (case store job_id of
        None \<Rightarrow> Inl (JobLookupError job_id)
      | Some j \<Rightarrow> Inr (store(job_id \<mapsto> j\<lparr>paused := False\<rparr>)))"

definition remove_job :: "jobstore \<Rightarrow> string \<Rightarrow> error + jobstore" where
  "remove_job store job_id =
     (case store job_id of
        None \<Rightarrow> Inl (JobLookupError job_id)
      | Some j \<Rightarrow> Inr (store(job_id := None)))"


section \<open>scheduler.py: SchedulerManager\<close>

text \<open>
  The log callback is any callable taking \<open>(scheduler_id, job_type, status, message,
  duration)\<close>; awaiting it changes the world outside the engine (type \<open>'w\<close>) and may
  raise. \<open>duration\<close> is \<open>None\<close> where the call site leaves the argument out.
\<close>

type_synonym 'w callback =
  "string \<Rightarrow> string \<Rightarrow> string \<Rightarrow> string option \<Rightarrow> int option \<Rightarrow> 'w \<Rightarrow> 'w \<times> error option"

text \<open>
  The state of a \<open>SchedulerManager\<close>: the scheduler it owns (its job store, the
  executor's count of running instances per job id, the \<open>running\<close> flag and the
  \<open>job_defaults\<close> of the constructor) and \<open>self.log_callback\<close>.
\<close>

record 'w SchedulerManager =
  jobs :: jobstore
  instances :: "string \<Rightarrow> nat"
  running :: bool
  job_defaults_coalesce :: bool
  job_defaults_max_instances :: nat
  log_callback :: "'w callback option"

definition SchedulerManager_init :: "'w SchedulerManager" where
  "SchedulerManager_init =
     \<lparr>jobs = Map.empty, instances = (\<lambda>job_id. 0), running = False,
      job_defaults_coalesce = False, job_defaults_max_instances = 3,
      log_callback = None\<rparr>"

definition start :: "'w SchedulerManager \<Rightarrow> 'w SchedulerManager" where
  "start self = self\<lparr>running := True\<rparr>"

definition shutdown :: "'w SchedulerManager \<Rightarrow> 'w SchedulerManager" where
  "shutdown self = (if running self then self\<lparr>running := False\<rparr> else self)"

definition set_log_callback :: "'w SchedulerManager \<Rightarrow> 'w callback \<Rightarrow> 'w SchedulerManager" where
  "set_log_callback self cb = self\<lparr>log_callback := Some cb\<rparr>"

text \<open>
  \<open>scheduler_data\<close> is the row of the schedulers table as a dict
  (\<open>_sql_row_to_dict\<close>, \<open>_mongo_doc_to_dict\<close>). Each key the engine reads is absent
  (\<open>None\<close>, so that \<open>scheduler_data[key]\<close> raises \<open>KeyError\<close>) or holds a value of
  its column's type; \<open>is_active\<close> holds any value, \<open>last_run\<close> the timestamp of the
  column (\<open>None\<close> when null).
\<close>

record scheduler_data =
  data_id :: "string option"
  data_job_type :: "string option"
  data_frequency :: "string option"
  data_frequency_config :: "pydict option"
  data_is_active :: "pyval option"
  data_last_run :: "time option"

text \<open>\<open>_create_trigger(frequency, frequency_config)\<close>.\<close>

definition create_trigger :: "apscheduler \<Rightarrow> string \<Rightarrow> pydict \<Rightarrow> error + trigger" where
  "create_trigger lib frequency frequency_config =
     (if frequency = ''cron'' then
        (case getitem frequency_config ''cron_expression'' of
           Inl e \<Rightarrow> Inl e
         | Inr expr \<Rightarrow>
             construct lib
               (CronTrigger expr (dict_get frequency_config ''timezone'' (PStr ''UTC''))))
      else if frequency = ''interval'' then
        construct lib (IntervalTrigger frequency_config)
      else if frequency = ''date'' then
        (case getitem frequency_config ''run_date'' of
           Inl e \<Rightarrow> Inl e
         | Inr run_date \<Rightarrow> construct lib (DateTrigger run_date))
      else Inl (ValueError (''Unsupported frequency type: '' @ frequency)))"

text \<open>
  \<open>add_scheduler(scheduler_data)\<close>. The \<open>except\<close> clause logs and re-raises, so the
  caller sees the exception of the body; the manager is returned as the body left it.
  \<open>now\<close> is the library's clock reading during the call.
\<close>

definition add_scheduler ::
  "apscheduler \<Rightarrow> time \<Rightarrow> 'w SchedulerManager \<Rightarrow> scheduler_data
     \<Rightarrow> 'w SchedulerManager \<times> (error + unit)" where
  "add_scheduler lib now self sd =
     (case data_id sd of
        None \<Rightarrow> (self, Inl (KeyError ''id''))
      | Some scheduler_id \<Rightarrow>
     (case data_job_type sd of
        None \<Rightarrow> (self, Inl (KeyError ''job_type''))
      | Some job_type \<Rightarrow>
     (case data_frequency sd of
        None \<Rightarrow> (self, Inl (KeyError ''frequency''))
      | Some frequency \<Rightarrow>
     (case data_frequency_config sd of
        None \<Rightarrow> (self, Inl (KeyError ''frequency_config''))
      | Some frequency_config \<Rightarrow>
     (case create_trigger lib frequency frequency_config of
        Inl e \<Rightarrow> (self, Inl e)
      | Inr trig \<Rightarrow>
     (case add_job (jobs self) now trig scheduler_id (scheduler_id, job_type) True 1 of
        Inl e \<Rightarrow> (self, Inl e)
      | Inr store \<Rightarrow> (self\<lparr>jobs := store\<rparr>, Inr ())))))))"

text \<open>\<open>update_scheduler(scheduler_data)\<close>: only the trigger of the job is modified.\<close>

definition update_scheduler ::
  "apscheduler \<Rightarrow> time \<Rightarrow> 'w SchedulerManager \<Rightarrow> scheduler_data
     \<Rightarrow> 'w SchedulerManager \<times> (error + unit)" where
  "update_scheduler lib now self sd =
     (case data_id sd of
        None \<Rightarrow> (self, Inl (KeyError ''id''))
      | Some scheduler_id \<Rightarrow>
     (case data_frequency sd of
        None \<Rightarrow> (self, Inl (KeyError ''frequency''))
      | Some frequency \<Rightarrow>
     (case data_frequency_config sd of
        None \<Rightarrow> (self, Inl (KeyError ''frequency_config''))
      | Some frequency_config \<Rightarrow>
     (case create_trigger lib frequency frequency_config of
        Inl e \<Rightarrow> (self, Inl e)
      | Inr trig \<Rightarrow>
     (case modify_job (jobs self) now scheduler_id trig of
        Inl e \<Rightarrow> (self, Inl e)
      | Inr store \<Rightarrow> (self\<lparr>jobs := store\<rparr>, Inr ()))))))"

text \<open>
  \<open>restore_scheduler(scheduler_data)\<close>: \<open>add_scheduler\<close> in a \<open>try\<close> whose
  \<open>except\<close> clause only logs. No other key of \<open>scheduler_data\<close> is read.
\<close>

definition restore_scheduler ::
  "apscheduler \<Rightarrow> time \<Rightarrow> 'w SchedulerManager \<Rightarrow> scheduler_data \<Rightarrow> 'w SchedulerManager" where
  "restore_scheduler lib now self sd = fst (add_scheduler lib now self sd)"

definition pause_scheduler ::
  "'w SchedulerManager \<Rightarrow> string \<Rightarrow> 'w SchedulerManager \<times> (error + unit)" where
  "pause_scheduler self scheduler_id =
     (case pause_job (jobs self) scheduler_id of
        Inl e \<Rightarrow> (self, Inl e)
      | Inr store \<Rightarrow> (self\<lparr>jobs := store\<rparr>, Inr ()))"

definition resume_scheduler ::
  "'w SchedulerManager \<Rightarrow> string \<Rightarrow> 'w SchedulerManager \<times> (error + unit)" where
  "resume_scheduler self scheduler_id =
     (case resume_job (jobs self) scheduler_id of
        Inl e \<Rightarrow> (self, Inl e)
      | Inr store \<Rightarrow> (self\<lparr>jobs := store\<rparr>, Inr ()))"

definition remove_scheduler ::
  "'w SchedulerManager \<Rightarrow> string \<Rightarrow> 'w SchedulerManager \<times> (error + unit)" where
  "remove_scheduler self scheduler_id =
     (case remove_job (jobs self) scheduler_id of
        Inl e \<Rightarrow> (self, Inl e)
      | Inr store \<Rightarrow> (self\<lparr>jobs := store\<rparr>, Inr ()))"


text \<open>
  What an execution meets outside the engine: the successive readings of
  \<open>time.time()\<close> (\<open>clock env 0\<close> is \<open>start_time\<close>) and the outcome of the HTTP
  request of the api_call body (\<open>Some e\<close>: the request or \<open>raise_for_status\<close>
  raises \<open>e\<close>).
\<close>

record env =
  clock :: "nat \<Rightarrow> time"
  http_outcome :: "error option"

text \<open>
  The task bodies. Five of them sleep and log; \<open>_execute_api_call\<close> logs and
  re-raises what the request raises.
\<close>

definition execute_email_notification :: "string \<Rightarrow> error + unit" where
  "execute_email_notification scheduler_id = Inr ()"

definition execute_data_backup :: "string \<Rightarrow> error + unit" where
  "execute_data_backup scheduler_id = Inr ()"

definition execute_report_generation :: "string \<Rightarrow> error + unit" where
  "execute_report_generation scheduler_id = Inr ()"

definition execute_api_call :: "env \<Rightarrow> string \<Rightarrow> error + unit" where
  "execute_api_call e scheduler_id =
     (case http_outcome e of None \<Rightarrow> Inr () | Some ex \<Rightarrow> Inl ex)"

definition execute_file_cleanup :: "string \<Rightarrow> error + unit" where
  "execute_file_cleanup scheduler_id = Inr ()"

definition execute_custom_job :: "string \<Rightarrow> error + unit" where
  "execute_custom_job scheduler_id = Inr ()"

text \<open>\<open>_execute_job_by_type(job_type, scheduler_id)\<close>.\<close>

definition execute_job_by_type :: "env \<Rightarrow> string \<Rightarrow> string \<Rightarrow> error + unit" where
  "execute_job_by_type e job_type scheduler_id =
     (if job_type = ''email_notification'' then execute_email_notification scheduler_id
      else if job_type = ''data_backup'' then execute_data_backup scheduler_id
      else if job_type = ''report_generation'' then execute_report_generation scheduler_id
      else if job_type = ''api_call'' then execute_api_call e scheduler_id
      else if job_type = ''file_cleanup'' then execute_file_cleanup scheduler_id
      else if job_type = ''custom'' then execute_custom_job scheduler_id
      else Inl (ValueError (''Unknown job type: '' @ job_type)))"

text \<open>
  A logging site of \<open>_execute_job\<close>:
  \<open>if self.log_callback: await self.log_callback(...)\<close>. The result is the world
  after the call and the exception the call raised, if any.
\<close>

definition log_site ::
  "'w SchedulerManager \<Rightarrow> string \<Rightarrow> string \<Rightarrow> string \<Rightarrow> string option \<Rightarrow> int option
     \<Rightarrow> 'w \<Rightarrow> 'w \<times> error option" where
  "log_site self scheduler_id job_type status message duration w =
     (case log_callback self of
        None \<Rightarrow> (w, None)
      | Some cb \<Rightarrow> cb scheduler_id job_type status message duration w)"

text \<open>
  The \<open>except Exception as e\<close> clause of \<open>_execute_job\<close>, entered with the
  \<open>k\<close>-th clock reading still to come: it logs the error and re-raises \<open>e\<close> (an
  exception of the callback itself replaces it).
\<close>

definition except_clause ::
  "'w SchedulerManager \<Rightarrow> env \<Rightarrow> nat \<Rightarrow> time \<Rightarrow> string \<Rightarrow> string \<Rightarrow> error \<Rightarrow> 'w
     \<Rightarrow> 'w \<times> (error + unit)" where
  "except_clause self e k start_time scheduler_id job_type ex w =
     (let duration = py_int (clock e k - start_time);
          error_message = ''Job failed: '' @ str_exc ex
      in case log_site self scheduler_id job_type ''error'' (Some error_message)
                (Some duration) w of
           (w', Some ex') \<Rightarrow> (w', Inl ex')
         | (w', None) \<Rightarrow> (w', Inl ex))"

text \<open>\<open>_execute_job(scheduler_id, job_type)\<close>.\<close>

definition execute_job ::
  "'w SchedulerManager \<Rightarrow> env \<Rightarrow> string \<Rightarrow> string \<Rightarrow> 'w \<Rightarrow> 'w \<times> (error + unit)" where
  "execute_job self e scheduler_id job_type w =
     (let start_time = clock e 0 in
      case log_site self scheduler_id job_type ''running''
             (Some ''Job execution started'') None w of
        (w1, Some ex) \<Rightarrow> except_clause self e 1 start_time scheduler_id job_type ex w1
      | (w1, None) \<Rightarrow>
          (case execute_job_by_type e job_type scheduler_id of
             Inl ex \<Rightarrow> except_clause self e 1 start_time scheduler_id job_type ex w1
           | Inr u \<Rightarrow>
               (let duration = py_int (clock e 1 - start_time) in
                case log_site self scheduler_id job_type ''success''
                       (Some ''Job completed successfully'') (Some duration) w1 of
                  (w2, Some ex) \<Rightarrow>
                    except_clause self e 2 start_time scheduler_id job_type ex w2
                | (w2, None) \<Rightarrow> (w2, Inr ()))))"


section \<open>crud.py and main.py: the execution history\<close>

text \<open>
  A row of the logs table (\<open>LogTable\<close>, \<open>MongoLogDocument\<close>), and the database as the
  callback sees it: the backend chosen by \<open>DATABASE_TYPE\<close>, the rows in insertion
  order, the identifiers that \<open>uuid.uuid4()\<close> hands out (a counter stands for their
  freshness), the successive readings of \<open>datetime.utcnow()\<close> in the process and of
  \<open>func.now()\<close> on the SQL server, the exception that a database operation raises
  while the database is out of order, and the number of calls of the callback so far.
\<close>

record log_row =
  log_id :: nat
  scheduler_id :: string
  job_type :: string
  status :: string
  message :: "string option"
  started_at :: time
  completed_at :: "time option"
  duration :: "int option"

record database =
  DATABASE_TYPE :: string
  logs :: "log_row list"
  uuid4 :: nat
  utcnow :: "nat \<Rightarrow> time"
  utc_reads :: nat
  func_now :: "nat \<Rightarrow> time"
  func_now_reads :: nat
  db_failure :: "error option"
  callback_calls :: nat

text \<open>
  \<open>create_log_db(db, scheduler_id, job_type, status, message, duration)\<close>: one new
  row per call, on both backends. On MongoDB \<open>create_document\<close> reads the clock for
  \<open>started_at\<close>, and a status other than \<open>running\<close> reads it once more for
  \<open>completed_at\<close>. On SQL \<open>completed_at\<close> is read from the clock of the process for
  a status other than \<open>running\<close>, and \<open>started_at\<close> is the server default
  \<open>func.now()\<close> of the insert.
\<close>

definition create_log_db ::
  "database \<Rightarrow> string \<Rightarrow> string \<Rightarrow> string \<Rightarrow> string option \<Rightarrow> int option
     \<Rightarrow> error + database" where
  "create_log_db db sid jt st msg dur =
     (case db_failure db of
        Some ex \<Rightarrow> Inl ex
      | None \<Rightarrow>
          if DATABASE_TYPE db = ''mongodb'' then
            (let doc = \<lparr>log_id = uuid4 db, scheduler_id = sid, job_type = jt,
                        status = st, message = msg,
                        started_at = utcnow db (utc_reads db),
                        completed_at = None, duration = dur\<rparr>;
                 doc' = (if st \<noteq> ''running''
                         then doc\<lparr>completed_at := Some (utcnow db (utc_reads db + 1))\<rparr>
                         else doc)
             in Inr (db\<lparr>logs := logs db @ [doc'], uuid4 := uuid4 db + 1,
                        utc_reads := utc_reads db + (if st \<noteq> ''running'' then 2 else 1)\<rparr>))
          else
            (let new_log = \<lparr>log_id = uuid4 db, scheduler_id = sid, job_type = jt,
                            status = st, message = msg,
                            started_at = func_now db (func_now_reads db),
                            completed_at =
                              (if st \<noteq> ''running'' then Some (utcnow db (utc_reads db))
                               else None),
                            duration = dur\<rparr>
             in Inr (db\<lparr>logs := logs db @ [new_log], uuid4 := uuid4 db + 1,
                        utc_reads := utc_reads db + (if st \<noteq> ''running'' then 1 else 0),
                        func_now_reads := func_now_reads db + 1\<rparr>)))"

text \<open>
  \<open>job_execution_callback\<close> of main.py: \<open>create_log_db\<close> in a \<open>try\<close> whose
  \<open>except\<close> clause only logs, so the callback never raises.
\<close>

definition job_execution_callback :: "database callback" where
  "job_execution_callback sid jt st msg dur db =
     (let db1 = db\<lparr>callback_calls := callback_calls db + 1\<rparr>
      in case create_log_db db1 sid jt st msg dur of
           Inl ex \<Rightarrow> (db1, None)
         | Inr db2 \<Rightarrow> (db2, None))"

text \<open>
  A stand-in for the library at inputs whose constructor call the library accepts
  (such as \<open>IntervalTrigger(seconds=5)\<close>): it accepts the call. Only the concrete
  evaluations below use it.
\<close>

definition accepting :: apscheduler where
  "accepting t = None"



section \<open>The engine at work\<close>

text \<open>
  Modelled from the spec: the executor of the library, which admits a fire event for a
  job id, is not under src/. A fire event while the scheduler does not run, for an id
  that is not registered, or for a paused job, is a no-op; a fire event that arrives
  while the job already has as many running executions as its registration allows
  (\<open>max_instances\<close>, which \<open>add_scheduler\<close> passes) is dropped, neither queued nor
  retried; otherwise one more execution of the job runs, with the \<open>args\<close> of the
  registration.
\<close>

definition submit_job ::
  "'w SchedulerManager \<Rightarrow> string \<Rightarrow> 'w SchedulerManager \<times> (string \<times> string) option" where
  "submit_job self job_id =
     (if \<not> running self then (self, None) else
      case jobs self job_id of
        None \<Rightarrow> (self, None)
      | Some j \<Rightarrow>
          if paused j then (self, None)
          else if max_instances j \<le> instances self job_id then (self, None)
          else (self\<lparr>instances := (instances self)(job_id := instances self job_id + 1)\<rparr>,
                Some (args j)))"

text \<open>
  Modelled from the spec: the executor's bookkeeping at the end of a running execution
  is not under src/. The execution releases its slot.
\<close>

definition job_done :: "'w SchedulerManager \<Rightarrow> string \<Rightarrow> 'w SchedulerManager" where
  "job_done self job_id =
     self\<lparr>instances := (instances self)(job_id := instances self job_id - 1)\<rparr>"

text \<open>
  Everything that can happen to a manager: the calls of its public methods, a fire
  event for a job id and the end of a running execution. The effects of an execution
  on the world outside are applied at its fire event; \<open>Finish\<close> releases the slot.
\<close>

datatype 'w operation =
    Start
  | Shutdown
  | SetLogCallback "'w callback"
  | Add time scheduler_data
  | Update time scheduler_data
  | Restore time scheduler_data
  | Pause string
  | Resume string
  | Remove string
  | Fire string env
  | Finish string

fun apply_operation ::
  "apscheduler \<Rightarrow> 'w SchedulerManager \<times> 'w \<Rightarrow> 'w operation \<Rightarrow> 'w SchedulerManager \<times> 'w" where
  "apply_operation lib (self, w) Start = (start self, w)"
| "apply_operation lib (self, w) Shutdown = (shutdown self, w)"
| "apply_operation lib (self, w) (SetLogCallback cb) = (set_log_callback self cb, w)"
| "apply_operation lib (self, w) (Add now sd) = (fst (add_scheduler lib now self sd), w)"
| "apply_operation lib (self, w) (Update now sd) = (fst (update_scheduler lib now self sd), w)"
| "apply_operation lib (self, w) (Restore now sd) = (restore_scheduler lib now self sd, w)"
| "apply_operation lib (self, w) (Pause job_id) = (fst (pause_scheduler self job_id), w)"
| "apply_operation lib (self, w) (Resume job_id) = (fst (resume_scheduler self job_id), w)"
| "apply_operation lib (self, w) (Remove job_id) = (fst (remove_scheduler self job_id), w)"
| "apply_operation lib (self, w) (Fire job_id e) =
     (case submit_job self job_id of
        (self', None) \<Rightarrow> (self', w)
      | (self', Some (sid, jt)) \<Rightarrow> (self', fst (execute_job self' e sid jt w)))"
| "apply_operation lib (self, w) (Finish job_id) = (job_done self job_id, w)"

definition run_engine ::
  "apscheduler \<Rightarrow> 'w operation list \<Rightarrow> 'w \<Rightarrow> 'w SchedulerManager \<times> 'w" where
  "run_engine lib ops w = foldl (apply_operation lib) (SchedulerManager_init, w) ops"

text \<open>
  Modelled from the spec: the interval trigger of the library is not under src/. Its
  configuration gives seconds, minutes, hours and days, all optional and summed to the
  total interval.
\<close>

definition unit_of :: "pydict \<Rightarrow> string \<Rightarrow> int" where
  "unit_of cfg k = (case map_of cfg k of Some (PInt n) \<Rightarrow> n | _ \<Rightarrow> 0)"

definition interval_length :: "pydict \<Rightarrow> int" where
  "interval_length cfg =
     unit_of cfg ''seconds'' + 60 * unit_of cfg ''minutes''
       + 3600 * unit_of cfg ''hours'' + 86400 * unit_of cfg ''days''"

text \<open>
  Modelled from the spec: a valid interval configuration holds at least one of seconds,
  minutes, hours, days and nothing else, each a non-negative integer, and its total
  interval is positive.
\<close>

definition valid_interval_config :: "pydict \<Rightarrow> bool" where
  "valid_interval_config cfg =
     (list_all (\<lambda>(k, v). k \<in> set valid_keys \<and> (case v of PInt n \<Rightarrow> 0 \<le> n | _ \<Rightarrow> False)) cfg
      \<and> list_ex (contains cfg) valid_keys \<and> 0 < interval_length cfg)"

text \<open>
  Modelled from the spec: the fire times of an interval trigger are spaced by the total
  interval, starting from the time of registration; the first one comes one total
  interval later (a job of 5 seconds fires twice within 12 seconds).
\<close>

definition fire_time :: "time \<Rightarrow> pydict \<Rightarrow> nat \<Rightarrow> time" where
  "fire_time registered cfg k = registered + real_of_int (int (Suc k) * interval_length cfg)"


section \<open>main.py: the wiring\<close>

text \<open>
  The process: the global \<open>scheduler_manager\<close> and the database behind \<open>get_db\<close>.
\<close>

record app =
  scheduler_manager :: "database SchedulerManager option"
  get_db :: database

text \<open>
  The module body, run once at import: \<open>scheduler_manager = None\<close>, the definitions,
  and at the end \<open>if scheduler_manager: scheduler_manager.set_log_callback(...)\<close>.
  \<open>None\<close> is falsy, a \<open>SchedulerManager\<close> object is truthy.
\<close>

definition main_module :: "database \<Rightarrow> app" where
  "main_module d =
     (let a = \<lparr>scheduler_manager = None, get_db = d\<rparr>
      in case scheduler_manager a of
           None \<Rightarrow> a
         | Some m \<Rightarrow>
             a\<lparr>scheduler_manager := Some (set_log_callback m job_execution_callback)\<rparr>)"

text \<open>
  The startup half of \<open>lifespan\<close>, once \<open>init_db\<close> has returned: a new manager is
  built and started, then every row of \<open>get_schedulers_db\<close> with
  \<open>scheduler.get('is_active', True)\<close> is restored (\<open>None\<close>: the query raised, which
  is logged). Each row comes with the library's clock reading at its restoration.
\<close>

definition lifespan_startup ::
  "apscheduler \<Rightarrow> (time \<times> scheduler_data) list option \<Rightarrow> app \<Rightarrow> app" where
  "lifespan_startup lib schedulers a =
     a\<lparr>scheduler_manager := Some
        (case schedulers of
           None \<Rightarrow> start SchedulerManager_init
         | Some rows \<Rightarrow>
             foldl (\<lambda>m (now, sd).
                 if (case data_is_active sd of None \<Rightarrow> True | Some v \<Rightarrow> truthy v)
                 then restore_scheduler lib now m sd else m)
               (start SchedulerManager_init) rows)\<rparr>"

text \<open>The shutdown half: \<open>if scheduler_manager: scheduler_manager.shutdown()\<close>.\<close>

definition lifespan_shutdown :: "app \<Rightarrow> app" where
  "lifespan_shutdown a =
     (case scheduler_manager a of
        None \<Rightarrow> a
      | Some m \<Rightarrow> a\<lparr>scheduler_manager := Some (shutdown m)\<rparr>)"

text \<open>
  A method call on the global from a request handler. While the global is \<open>None\<close>
  the attribute lookup raises; the handlers turn every exception into an HTTP error.
\<close>

definition on_manager ::
  "app \<Rightarrow> (database SchedulerManager \<Rightarrow> database SchedulerManager \<times> (error + unit))
     \<Rightarrow> app \<times> (error + unit)" where
  "on_manager a method =
     (case scheduler_manager a of
        None \<Rightarrow> (a, Inl (AttributeError ''NoneType object has no such attribute''))
      | Some m \<Rightarrow>
          (case method m of (m', r) \<Rightarrow> (a\<lparr>scheduler_manager := Some m'\<rparr>, r)))"

text \<open>
  What the process meets: startup and shutdown of the application, the requests that
  reach the manager (with the row that the database call of the handler returned), a
  fire event of the scheduler and the end of a running execution.
\<close>

datatype event =
    Startup "(time \<times> scheduler_data) list option"
  | ShutdownApp
  | CreateScheduler time scheduler_data
  | UpdateScheduler time scheduler_data
  | PauseScheduler string
  | ResumeScheduler string
  | DeleteScheduler string
  | JobFires string env
  | JobFinishes string

fun app_step :: "apscheduler \<Rightarrow> app \<Rightarrow> event \<Rightarrow> app" where
  "app_step lib a (Startup schedulers) = lifespan_startup lib schedulers a"
| "app_step lib a ShutdownApp = lifespan_shutdown a"
| "app_step lib a (CreateScheduler now sd) =
     fst (on_manager a (\<lambda>m. add_scheduler lib now m sd))"
| "app_step lib a (UpdateScheduler now sd) =
     fst (on_manager a (\<lambda>m. update_scheduler lib now m sd))"
| "app_step lib a (PauseScheduler i) = fst (on_manager a (\<lambda>m. pause_scheduler m i))"
| "app_step lib a (ResumeScheduler i) = fst (on_manager a (\<lambda>m. resume_scheduler m i))"
| "app_step lib a (DeleteScheduler i) = fst (on_manager a (\<lambda>m. remove_scheduler m i))"
| "app_step lib a (JobFires i e) =
     (case scheduler_manager a of
        None \<Rightarrow> a
      | Some m \<Rightarrow>
          (case apply_operation lib (m, get_db a) (Fire i e) of
             (m', d') \<Rightarrow> a\<lparr>scheduler_manager := Some m', get_db := d'\<rparr>))"
| "app_step lib a (JobFinishes i) =
     (case scheduler_manager a of
        None \<Rightarrow> a
      | Some m \<Rightarrow> a\<lparr>scheduler_manager := Some (job_done m i)\<rparr>)"

definition run_app :: "apscheduler \<Rightarrow> database \<Rightarrow> event list \<Rightarrow> app" where
  "run_app lib d evs = foldl (app_step lib) (main_module d) evs"


section \<open>Invariants\<close>

text \<open>
  Every job has at most one running execution, and every registration allows one.
\<close>

definition one_at_a_time :: "'w SchedulerManager \<Rightarrow> bool" where
  "one_at_a_time self =
     ((\<forall>i. instances self i \<le> 1) \<and> (\<forall>i j. jobs self i = Some j \<longrightarrow> max_instances j = 1))"

text \<open>The manager of the process, if there is one, has no log callback.\<close>

definition no_recorder :: "app \<Rightarrow> bool" where
  "no_recorder a =
     (case scheduler_manager a of None \<Rightarrow> True | Some m \<Rightarrow> log_callback m = None)"

text \<open>Concrete inputs for the evaluations below.\<close>

definition demo_env :: env where
  "demo_env = \<lparr>clock = (\<lambda>k. 100 + 2 * real k), http_outcome = None\<rparr>"

definition failing_env :: env where
  "failing_env = \<lparr>clock = (\<lambda>k. 100 + 2 * real k),
                  http_outcome = Some (HTTPError ''503 Service Unavailable'')\<rparr>"

definition empty_db :: database where
  "empty_db = \<lparr>DATABASE_TYPE = ''postgresql'', logs = [], uuid4 = 0,
               utcnow = (\<lambda>k. 1000 + real k), utc_reads = 0,
               func_now = (\<lambda>k. 2000 + real k), func_now_reads = 0,
               db_failure = None, callback_calls = 0\<rparr>"

definition interval_row :: "string \<Rightarrow> string \<Rightarrow> int \<Rightarrow> scheduler_data" where
  "interval_row i jt n =
     \<lparr>data_id = Some i, data_job_type = Some jt, data_frequency = Some ''interval'',
      data_frequency_config = Some [(''seconds'', PInt n)],
      data_is_active = Some (PBool True), data_last_run = None\<rparr>"

definition recording_manager :: "database SchedulerManager" where
  "recording_manager =
     fst (add_scheduler accepting 0
            (set_log_callback (start SchedulerManager_init) job_execution_callback)
            (interval_row ''J1'' ''api_call'' 5))"


section \<open>Theorems\<close>

text \<open>
  C5, as the claim states it, fails for the trigger resolution of the engine:
  \<open>_create_trigger\<close> has no check of the keys, so an interval configuration with none
  of them, here the empty one, resolves whenever the library accepts
  \<open>IntervalTrigger()\<close>, and the job is registered.
\<close>

theorem C5_counterexample:
  "create_trigger accepting ''interval'' [] = Inr (IntervalTrigger [])
   \<and> add_scheduler accepting 0 (SchedulerManager_init :: unit SchedulerManager)
        \<lparr>data_id = Some ''J'', data_job_type = Some ''custom'',
         data_frequency = Some ''interval'', data_frequency_config = Some [],
         data_is_active = Some (PBool True), data_last_run = None\<rparr>
     = (SchedulerManager_init\<lparr>jobs := [''J'' \<mapsto>
          \<lparr>trigger = IntervalTrigger [], args = (''J'', ''custom''), max_instances = 1,
           paused = False, scheduled_at = 0\<rparr>]\<rparr>, Inr ())"
  by (simp add: create_trigger_def construct_def accepting_def add_scheduler_def
      add_job_def SchedulerManager_init_def)

text \<open>
  C5, amended. A frequency_config of frequency type interval that contains none of the
  keys seconds, minutes, hours, days is rejected by the validator of the data model,
  with the \<open>ValueError\<close> that pydantic reports as a validation error. The trigger
  resolution of the engine does not check the keys: it hands the configuration to
  \<open>IntervalTrigger\<close> as it is and fails only if that constructor raises.
\<close>

theorem C5_interval_keys_checked_by_validator_only:
  assumes "\<not> contains v ''seconds''" and "\<not> contains v ''minutes''"
    and "\<not> contains v ''hours''" and "\<not> contains v ''days''"
  shows "validate_frequency_config v (Some INTERVAL) =
      Inl (ValueError
        ''At least one interval (seconds, minutes, hours, days) must be specified'')
     \<and> create_trigger lib ''interval'' v =
         (case lib (IntervalTrigger v) of
            None \<Rightarrow> Inr (IntervalTrigger v)
          | Some ex \<Rightarrow> Inl ex)"
  using assms
  by (simp add: validate_frequency_config_def valid_keys_def create_trigger_def
      construct_def)

theorem C5_interval_keys_checked_by_validator_only_witness:
  "validate_frequency_config [(''weeks'', PInt 2)] (Some INTERVAL) =
      Inl (ValueError
        ''At least one interval (seconds, minutes, hours, days) must be specified'')
   \<and> create_trigger accepting ''interval'' [(''weeks'', PInt 2)]
       = Inr (IntervalTrigger [(''weeks'', PInt 2)])"
  using C5_interval_keys_checked_by_validator_only [of "[(''weeks'', PInt 2)]" accepting]
  by (simp add: contains_def accepting_def)

text \<open>
  C4, as the claim states it, fails in the kind of the error: the add is refused with
  the \<open>KeyError\<close> of the lookup \<open>frequency_config["cron_expression"]\<close>, not with a
  validation error (a \<open>ValueError\<close>).
\<close>

theorem C4_counterexample:
  "snd (add_scheduler accepting 0 (SchedulerManager_init :: unit SchedulerManager)
     \<lparr>data_id = Some ''J'', data_job_type = Some ''custom'',
      data_frequency = Some ''cron'', data_frequency_config = Some [],
      data_is_active = Some (PBool True), data_last_run = None\<rparr>)
   = Inl (KeyError ''cron_expression'')"
  by (simp add: add_scheduler_def create_trigger_def getitem_def)

text \<open>
  C4, amended. An add with frequency cron whose frequency_config lacks the key
  cron_expression fails synchronously while the trigger is resolved, with the
  \<open>KeyError\<close> of the lookup (or that of a key missing from the row itself) and not
  with a validation error; the manager, its job store included, is left as it was, so
  the job is never admitted to the registry.
\<close>

theorem C4_cron_without_expression_not_admitted:
  assumes "data_frequency sd = Some ''cron''"
    and "data_frequency_config sd = Some cfg"
    and "\<not> contains cfg ''cron_expression''"
  shows "fst (add_scheduler lib now self sd) = self
     \<and> snd (add_scheduler lib now self sd) =
         (case data_id sd of
            None \<Rightarrow> Inl (KeyError ''id'')
          | Some i \<Rightarrow>
              (case data_job_type sd of
                 None \<Rightarrow> Inl (KeyError ''job_type'')
               | Some jt \<Rightarrow> Inl (KeyError ''cron_expression'')))"
proof -
  from assms(3) have "map_of cfg ''cron_expression'' = None"
    by (simp add: contains_def split: option.splits)
  then have "create_trigger lib ''cron'' cfg = Inl (KeyError ''cron_expression'')"
    by (simp add: create_trigger_def getitem_def)
  with assms show ?thesis
    by (simp add: add_scheduler_def split: option.splits)
qed

theorem C4_cron_without_expression_not_admitted_witness:
  "add_scheduler accepting 0 (SchedulerManager_init :: unit SchedulerManager)
     \<lparr>data_id = Some ''J'', data_job_type = Some ''custom'',
      data_frequency = Some ''cron'', data_frequency_config = Some [],
      data_is_active = Some (PBool True), data_last_run = None\<rparr>
   = (SchedulerManager_init, Inl (KeyError ''cron_expression''))"
  using C4_cron_without_expression_not_admitted
    [of "\<lparr>data_id = Some ''J'', data_job_type = Some ''custom'',
      data_frequency = Some ''cron'', data_frequency_config = Some [],
      data_is_active = Some (PBool True), data_last_run = None\<rparr>" "[]" accepting 0
      "SchedulerManager_init :: unit SchedulerManager"]
  by (simp add: contains_def prod_eq_iff)

subsection \<open>What one execution does\<close>

lemma log_site_None:
  "log_callback self = None \<Longrightarrow> log_site self sid jt st msg dur w = (w, None)"
  by (simp add: log_site_def)

lemma execute_job_without_callback:
  "log_callback self = None \<Longrightarrow>
   execute_job self e sid jt w = (w, execute_job_by_type e jt sid)"
  by (cases "execute_job_by_type e jt sid")
     (simp_all add: execute_job_def except_clause_def log_site_None Let_def)

lemma log_callback_submit:
  "log_callback (fst (submit_job self i)) = log_callback self"
  by (simp add: submit_job_def split: option.splits)

lemma execute_job_recorded:
  assumes cb: "log_callback self = Some job_execution_callback"
    and up: "db_failure db = None"
  shows "logs (fst (execute_job self e sid jt db)) = logs db @
      [\<lparr>log_id = uuid4 db, scheduler_id = sid, job_type = jt, status = ''running'',
        message = Some ''Job execution started'',
        started_at = (if DATABASE_TYPE db = ''mongodb'' then utcnow db (utc_reads db)
                      else func_now db (func_now_reads db)),
        completed_at = None, duration = None\<rparr>,
       \<lparr>log_id = uuid4 db + 1, scheduler_id = sid, job_type = jt,
        status = (case execute_job_by_type e jt sid of
                    Inl ex \<Rightarrow> ''error'' | Inr u \<Rightarrow> ''success''),
        message = (case execute_job_by_type e jt sid of
                     Inl ex \<Rightarrow> Some (''Job failed: '' @ str_exc ex)
                   | Inr u \<Rightarrow> Some ''Job completed successfully''),
        started_at = (if DATABASE_TYPE db = ''mongodb'' then utcnow db (utc_reads db + 1)
                      else func_now db (func_now_reads db + 1)),
        completed_at = Some (if DATABASE_TYPE db = ''mongodb''
                             then utcnow db (utc_reads db + 2)
                             else utcnow db (utc_reads db)),
        duration = Some (py_int (clock e 1 - clock e 0))\<rparr>]"
    and "snd (execute_job self e sid jt db) = execute_job_by_type e jt sid"
proof -
  note defs = execute_job_def except_clause_def log_site_def job_execution_callback_def
    create_log_db_def Let_def
  show "logs (fst (execute_job self e sid jt db)) = logs db @
      [\<lparr>log_id = uuid4 db, scheduler_id = sid, job_type = jt, status = ''running'',
        message = Some ''Job execution started'',
        started_at = (if DATABASE_TYPE db = ''mongodb'' then utcnow db (utc_reads db)
                      else func_now db (func_now_reads db)),
        completed_at = None, duration = None\<rparr>,
       \<lparr>log_id = uuid4 db + 1, scheduler_id = sid, job_type = jt,
        status = (case execute_job_by_type e jt sid of
                    Inl ex \<Rightarrow> ''error'' | Inr u \<Rightarrow> ''success''),
        message = (case execute_job_by_type e jt sid of
                     Inl ex \<Rightarrow> Some (''Job failed: '' @ str_exc ex)
                   | Inr u \<Rightarrow> Some ''Job completed successfully''),
        started_at = (if DATABASE_TYPE db = ''mongodb'' then utcnow db (utc_reads db + 1)
                      else func_now db (func_now_reads db + 1)),
        completed_at = Some (if DATABASE_TYPE db = ''mongodb''
                             then utcnow db (utc_reads db + 2)
                             else utcnow db (utc_reads db)),
        duration = Some (py_int (clock e 1 - clock e 0))\<rparr>]"
    using cb up by (cases "execute_job_by_type e jt sid") (simp_all add: defs)
  show "snd (execute_job self e sid jt db) = execute_job_by_type e jt sid"
    using cb up by (cases "execute_job_by_type e jt sid") (simp_all add: defs)
qed

text \<open>
  C10, as the claim states it, fails: with no log callback set, an execution of the
  api_call job whose request fails does raise.
\<close>

theorem C10_counterexample:
  "execute_job (SchedulerManager_init :: database SchedulerManager) failing_env
     ''J1'' ''api_call'' empty_db
   = (empty_db, Inl (HTTPError ''503 Service Unavailable''))"
proof -
  have "log_callback (SchedulerManager_init :: database SchedulerManager) = None"
    by (simp add: SchedulerManager_init_def)
  then have "execute_job (SchedulerManager_init :: database SchedulerManager) failing_env
      ''J1'' ''api_call'' empty_db
      = (empty_db, execute_job_by_type failing_env ''api_call'' ''J1'')"
    by (rule execute_job_without_callback)
  then show ?thesis
    by (simp add: execute_job_by_type_def execute_api_call_def failing_env_def)
qed

text \<open>
  C10, amended. With no log callback set, \<open>_execute_job\<close> still dispatches the task
  body and ends as the task body ends: every logging site is skipped and the world
  outside is left untouched, so the absence of a recorder never raises by itself. The
  five sleeping job types complete without raising; api_call raises what its request
  raises, and a job type outside the closed set raises the \<open>ValueError\<close> of the
  dispatch.
\<close>

theorem C10_no_callback_ends_as_task_body:
  assumes "log_callback self = None"
  shows "execute_job self e sid jt w = (w, execute_job_by_type e jt sid)
     \<and> (jt \<in> set [''email_notification'', ''data_backup'', ''report_generation'',
                  ''file_cleanup'', ''custom'']
          \<longrightarrow> execute_job self e sid jt w = (w, Inr ()))
     \<and> (jt = ''api_call''
          \<longrightarrow> execute_job self e sid jt w =
               (w, case http_outcome e of None \<Rightarrow> Inr () | Some ex \<Rightarrow> Inl ex))
     \<and> (jt \<notin> set (map JobType_value
            [EMAIL_NOTIFICATION, DATA_BACKUP, REPORT_GENERATION, API_CALL, FILE_CLEANUP,
             CUSTOM])
          \<longrightarrow> execute_job self e sid jt w =
               (w, Inl (ValueError (''Unknown job type: '' @ jt))))"
proof -
  have eq: "execute_job self e sid jt w = (w, execute_job_by_type e jt sid)"
    using assms by (rule execute_job_without_callback)
  show ?thesis
    unfolding eq
    by (auto simp: execute_job_by_type_def execute_email_notification_def
        execute_data_backup_def execute_report_generation_def execute_api_call_def
        execute_file_cleanup_def execute_custom_job_def)
qed

theorem C10_no_callback_ends_as_task_body_witness:
  "execute_job (SchedulerManager_init :: database SchedulerManager) demo_env
     ''J1'' ''custom'' empty_db = (empty_db, Inr ())"
  using C10_no_callback_ends_as_task_body
    [of "SchedulerManager_init :: database SchedulerManager" demo_env "''J1''" "''custom''"
      empty_db]
  by (simp add: SchedulerManager_init_def execute_job_by_type_def execute_custom_job_def)

text \<open>
  C2, as the claim states it, fails: with no log callback set (the state in which the
  constructor leaves the manager), an execution whose task body raises, here the
  api_call job with a failing request, leaves no record at all.
\<close>

theorem C2_counterexample:
  "execute_job_by_type failing_env ''api_call'' ''J1''
     = Inl (HTTPError ''503 Service Unavailable'')
   \<and> logs (fst (execute_job (SchedulerManager_init :: database SchedulerManager)
        failing_env ''J1'' ''api_call'' empty_db)) = []"
proof -
  have "log_callback (SchedulerManager_init :: database SchedulerManager) = None"
    by (simp add: SchedulerManager_init_def)
  then have "execute_job (SchedulerManager_init :: database SchedulerManager) failing_env
      ''J1'' ''api_call'' empty_db
      = (empty_db, execute_job_by_type failing_env ''api_call'' ''J1'')"
    by (rule execute_job_without_callback)
  then show ?thesis
    by (simp add: execute_job_by_type_def execute_api_call_def failing_env_def
        empty_db_def)
qed

text \<open>
  C2, amended. For every admitted fire event whose task body raises, the failure is
  caught at the dispatch boundary and does not propagate past the engine: the manager
  is as the admission left it, the scheduler still runs with its registry unchanged,
  and once the execution has ended the next fire event of the job is admitted. A
  terminal \<open>error\<close> row whose message is \<open>Job failed: \<close> followed by the failure
  description, with \<open>completed_at\<close> and the whole-second duration set, is recorded
  (after the \<open>running\<close> row of the start) if the log callback of main.py is set and the
  database works; if no log callback is set, nothing is recorded.
\<close>

theorem C2_failure_caught_and_recorded_by_callback:
  assumes "log_callback self = None \<or> log_callback self = Some job_execution_callback"
    and "db_failure db = None"
    and "submit_job self i = (self', Some (sid, jt))"
    and "execute_job_by_type e jt sid = Inl ex"
  shows "fst (apply_operation lib (self, db) (Fire i e)) = self'
     \<and> running self' \<and> jobs self' = jobs self
     \<and> snd (submit_job (job_done self' i) i) = Some (sid, jt)
     \<and> (log_callback self = None
          \<longrightarrow> logs (snd (apply_operation lib (self, db) (Fire i e))) = logs db)
     \<and> (log_callback self = Some job_execution_callback
          \<longrightarrow> (\<exists>r1 r2.
                logs (snd (apply_operation lib (self, db) (Fire i e))) = logs db @ [r1, r2]
                \<and> status r1 = ''running''
                \<and> scheduler_id r2 = sid \<and> job_type r2 = jt \<and> status r2 = ''error''
                \<and> message r2 = Some (''Job failed: '' @ str_exc ex)
                \<and> completed_at r2 \<noteq> None
                \<and> duration r2 = Some (py_int (clock e 1 - clock e 0))))"
proof -
  from assms(3) obtain j where run: "running self" and reg: "jobs self i = Some j"
      and act: "\<not> paused j" and free: "instances self i < max_instances j"
      and arg: "args j = (sid, jt)"
      and self': "self' = self\<lparr>instances := (instances self)(i := instances self i + 1)\<rparr>"
    by (auto simp: submit_job_def split: if_splits option.splits)
  have fire: "apply_operation lib (self, db) (Fire i e)
      = (self', fst (execute_job self' e sid jt db))"
    using assms(3) by simp
  have cb': "log_callback self' = log_callback self"
    using self' by simp
  have state: "running self' \<and> jobs self' = jobs self"
    using run self' by simp
  have "job_done self' i = self"
    using self' by (simp add: job_done_def)
  then have again: "snd (submit_job (job_done self' i) i) = Some (sid, jt)"
    using assms(3) by simp
  have silent: "logs (snd (apply_operation lib (self, db) (Fire i e))) = logs db"
    if "log_callback self = None"
    unfolding fire using that cb' by (simp add: execute_job_without_callback)
  have recorded: "\<exists>r1 r2.
      logs (snd (apply_operation lib (self, db) (Fire i e))) = logs db @ [r1, r2]
      \<and> status r1 = ''running''
      \<and> scheduler_id r2 = sid \<and> job_type r2 = jt \<and> status r2 = ''error''
      \<and> message r2 = Some (''Job failed: '' @ str_exc ex)
      \<and> completed_at r2 \<noteq> None
      \<and> duration r2 = Some (py_int (clock e 1 - clock e 0))"
    if "log_callback self = Some job_execution_callback"
  proof -
    from that cb' have "log_callback self' = Some job_execution_callback"
      by simp
    from execute_job_recorded(1) [OF this assms(2), of e sid jt] assms(4)
    show ?thesis
      unfolding fire by simp
  qed
  have "fst (apply_operation lib (self, db) (Fire i e)) = self'"
    unfolding fire by simp
  with state again silent recorded show ?thesis
    by blast
qed

theorem C2_failure_caught_and_recorded_by_callback_witness:
  "running (fst (apply_operation accepting (recording_manager, empty_db)
       (Fire ''J1'' failing_env)))
   \<and> snd (submit_job (job_done (fst (apply_operation accepting
       (recording_manager, empty_db) (Fire ''J1'' failing_env))) ''J1'') ''J1'')
       = Some (''J1'', ''api_call'')
   \<and> (\<exists>r1 r2.
        logs (snd (apply_operation accepting (recording_manager, empty_db)
          (Fire ''J1'' failing_env))) = [r1, r2]
        \<and> status r1 = ''running''
        \<and> scheduler_id r2 = ''J1'' \<and> job_type r2 = ''api_call'' \<and> status r2 = ''error''
        \<and> message r2 = Some ''Job failed: 503 Service Unavailable''
        \<and> completed_at r2 \<noteq> None
        \<and> duration r2 = Some 2)"
proof -
  have m: "recording_manager =
      \<lparr>jobs = [''J1'' \<mapsto>
         \<lparr>trigger = IntervalTrigger [(''seconds'', PInt 5)], args = (''J1'', ''api_call''),
          max_instances = 1, paused = False, scheduled_at = 0\<rparr>],
       instances = (\<lambda>job_id. 0), running = True, job_defaults_coalesce = False,
       job_defaults_max_instances = 3, log_callback = Some job_execution_callback\<rparr>"
    by (simp add: recording_manager_def add_scheduler_def add_job_def interval_row_def
        create_trigger_def construct_def accepting_def set_log_callback_def
        start_def SchedulerManager_init_def)
  have adm: "submit_job recording_manager ''J1'' =
      (recording_manager\<lparr>instances := (instances recording_manager)(''J1'' := 1)\<rparr>,
       Some (''J1'', ''api_call''))"
    by (simp add: m submit_job_def)
  have body: "execute_job_by_type failing_env ''api_call'' ''J1''
      = Inl (HTTPError ''503 Service Unavailable'')"
    by (simp add: execute_job_by_type_def execute_api_call_def failing_env_def)
  have cb: "log_callback recording_manager = Some job_execution_callback"
    by (simp add: m)
  have dur: "py_int (clock failing_env 1 - clock failing_env 0) = 2"
    by (simp add: failing_env_def py_int_def)
  from C2_failure_caught_and_recorded_by_callback
    [of recording_manager empty_db "''J1''"
      "recording_manager\<lparr>instances := (instances recording_manager)(''J1'' := 1)\<rparr>"
      "''J1''" "''api_call''" failing_env "HTTPError ''503 Service Unavailable''" accepting]
    adm body cb dur
  show ?thesis
    by (simp add: empty_db_def)
qed

text \<open>
  C3, as the claim states it, fails: with the callback of main.py set, one successful
  execution leaves two rows, and the row of the start still has the status
  \<open>running\<close> and no \<open>completed_at\<close> when the execution is over.
\<close>

theorem C3_counterexample:
  "map (\<lambda>r. (log_id r, status r, completed_at r, duration r))
     (logs (fst (execute_job (set_log_callback SchedulerManager_init job_execution_callback)
        demo_env ''J1'' ''custom'' empty_db)))
   = [(0, ''running'', None, None), (1, ''success'', Some 1000, Some 2)]"
  using execute_job_recorded(1)
    [of "set_log_callback SchedulerManager_init job_execution_callback" empty_db
      demo_env "''J1''" "''custom''"]
  by (simp add: set_log_callback_def empty_db_def demo_env_def execute_job_by_type_def
      execute_custom_job_def py_int_def)

text \<open>
  C3, amended. With the callback of main.py set and the database working, every
  execution appends two rows with identifiers of their own and changes no row that is
  already there: at the start a row with status \<open>running\<close>, no \<open>completed_at\<close> and no
  duration, and at the end a row with status \<open>success\<close> or \<open>error\<close>, with
  \<open>completed_at\<close> and the duration set.
\<close>

theorem C3_two_rows_per_execution:
  assumes "log_callback self = Some job_execution_callback"
    and "db_failure db = None"
  shows "\<exists>r1 r2. logs (fst (execute_job self e sid jt db)) = logs db @ [r1, r2]
     \<and> log_id r1 \<noteq> log_id r2
     \<and> status r1 = ''running'' \<and> completed_at r1 = None \<and> duration r1 = None
     \<and> status r2 = (if isl (execute_job_by_type e jt sid) then ''error'' else ''success'')
     \<and> completed_at r2 \<noteq> None \<and> duration r2 \<noteq> None"
  using execute_job_recorded(1) [OF assms, of e sid jt]
  by (cases "execute_job_by_type e jt sid") simp_all

theorem C3_two_rows_per_execution_witness:
  "\<exists>r1 r2. logs (fst (execute_job
       (set_log_callback SchedulerManager_init job_execution_callback)
       demo_env ''J1'' ''custom'' empty_db)) = logs empty_db @ [r1, r2]
     \<and> log_id r1 \<noteq> log_id r2
     \<and> status r1 = ''running'' \<and> completed_at r1 = None \<and> duration r1 = None
     \<and> status r2 = ''success''
     \<and> completed_at r2 \<noteq> None \<and> duration r2 \<noteq> None"
  using C3_two_rows_per_execution
    [of "set_log_callback SchedulerManager_init job_execution_callback" empty_db
      demo_env "''J1''" "''custom''"]
  by (simp add: set_log_callback_def empty_db_def execute_job_by_type_def
      execute_custom_job_def)

subsection \<open>Registration\<close>

lemma add_scheduler_registers:
  assumes "data_id sd = Some i" and "data_job_type sd = Some jt"
    and "data_frequency sd = Some f" and "data_frequency_config sd = Some cfg"
    and "create_trigger lib f cfg = Inr t"
  shows "add_scheduler lib now self sd =
    (self\<lparr>jobs := (jobs self)(i \<mapsto>
        \<lparr>trigger = t, args = (i, jt), max_instances = 1, paused = False,
         scheduled_at = now\<rparr>)\<rparr>, Inr ())"
  using assms by (simp add: add_scheduler_def add_job_def split: option.splits)

lemma update_scheduler_modifies:
  assumes "data_id sd = Some i"
    and "data_frequency sd = Some f" and "data_frequency_config sd = Some cfg"
    and "create_trigger lib f cfg = Inr t" and "jobs self i = Some old"
  shows "update_scheduler lib now self sd =
    (self\<lparr>jobs := (jobs self)(i \<mapsto> old\<lparr>trigger := t, scheduled_at := now\<rparr>)\<rparr>, Inr ())"
  using assms by (simp add: update_scheduler_def modify_job_def)

lemma create_trigger_interval_accepting:
  "create_trigger accepting ''interval'' cfg = Inr (IntervalTrigger cfg)"
  by (simp add: create_trigger_def construct_def accepting_def)

lemma add_interval_row_accepting:
  "add_scheduler accepting now self (interval_row i jt n) =
    (self\<lparr>jobs := (jobs self)(i \<mapsto>
        \<lparr>trigger = IntervalTrigger [(''seconds'', PInt n)], args = (i, jt),
         max_instances = 1, paused = False, scheduled_at = now\<rparr>)\<rparr>, Inr ())"
  by (simp add: add_scheduler_def add_job_def interval_row_def
      create_trigger_interval_accepting split: option.splits)

text \<open>
  C6, as the claim states it, fails: \<open>add_scheduler\<close> admits a job whose job_type is
  outside the closed set, and the error is first raised when the job is executed.
\<close>

theorem C6_counterexample:
  "snd (add_scheduler accepting 0 (SchedulerManager_init :: unit SchedulerManager)
          (interval_row ''J1'' ''bogus'' 5)) = Inr ()
   \<and> map_option args
        (jobs (fst (add_scheduler accepting 0 (SchedulerManager_init :: unit SchedulerManager)
          (interval_row ''J1'' ''bogus'' 5))) ''J1'') = Some (''J1'', ''bogus'')
   \<and> execute_job_by_type demo_env ''bogus'' ''J1''
        = Inl (ValueError ''Unknown job type: bogus'')"
  by (simp add: add_interval_row_accepting execute_job_by_type_def)

text \<open>
  C6, amended. \<open>add_scheduler\<close> does not check the job_type: whenever the trigger
  resolves, a job whose job_type is outside the closed set is registered under that
  job_type, and the error is raised at execution time, as the \<open>ValueError\<close>
  \<open>Unknown job type: ...\<close> of \<open>_execute_job_by_type\<close>.
\<close>

theorem C6_unknown_job_type_raised_at_execution:
  assumes "jt \<notin> set (map JobType_value
      [EMAIL_NOTIFICATION, DATA_BACKUP, REPORT_GENERATION, API_CALL, FILE_CLEANUP, CUSTOM])"
    and "data_id sd = Some i" and "data_job_type sd = Some jt"
    and "data_frequency sd = Some f" and "data_frequency_config sd = Some cfg"
    and "create_trigger lib f cfg = Inr t"
  shows "add_scheduler lib now self sd =
      (self\<lparr>jobs := (jobs self)(i \<mapsto>
          \<lparr>trigger = t, args = (i, jt), max_instances = 1, paused = False,
           scheduled_at = now\<rparr>)\<rparr>, Inr ())
     \<and> execute_job_by_type e jt i = Inl (ValueError (''Unknown job type: '' @ jt))"
proof -
  from assms(1) have "execute_job_by_type e jt i = Inl (ValueError (''Unknown job type: '' @ jt))"
    by (simp add: execute_job_by_type_def)
  with add_scheduler_registers [OF assms(2-6)] show ?thesis
    by simp
qed

theorem C6_unknown_job_type_raised_at_execution_witness:
  "snd (add_scheduler accepting 0 (SchedulerManager_init :: unit SchedulerManager)
          (interval_row ''J1'' ''bogus'' 5)) = Inr ()
   \<and> jobs (fst (add_scheduler accepting 0 (SchedulerManager_init :: unit SchedulerManager)
          (interval_row ''J1'' ''bogus'' 5))) ''J1'' =
       Some \<lparr>trigger = IntervalTrigger [(''seconds'', PInt 5)], args = (''J1'', ''bogus''),
           max_instances = 1, paused = False, scheduled_at = 0\<rparr>
   \<and> execute_job_by_type demo_env ''bogus'' ''J1''
        = Inl (ValueError ''Unknown job type: bogus'')"
  using C6_unknown_job_type_raised_at_execution
    [of "''bogus''" "interval_row ''J1'' ''bogus'' 5" "''J1''" "''interval''"
      "[(''seconds'', PInt 5)]" accepting "IntervalTrigger [(''seconds'', PInt 5)]"
      0 "SchedulerManager_init :: unit SchedulerManager" demo_env]
  by (simp add: interval_row_def create_trigger_interval_accepting)

text \<open>
  C8, as the claim states it, fails in its comparison with update: on an id that is
  already registered, \<open>add_scheduler\<close> replaces the job type of the registration,
  \<open>update_scheduler\<close> keeps the old one.
\<close>

theorem C8_counterexample:
  "map_option args
     (jobs (fst (add_scheduler accepting 7
        (fst (add_scheduler accepting 0 (SchedulerManager_init :: unit SchedulerManager)
           (interval_row ''J1'' ''custom'' 5)))
        (interval_row ''J1'' ''data_backup'' 10))) ''J1'')
     = Some (''J1'', ''data_backup'')
   \<and> map_option args
     (jobs (fst (update_scheduler accepting 7
        (fst (add_scheduler accepting 0 (SchedulerManager_init :: unit SchedulerManager)
           (interval_row ''J1'' ''custom'' 5)))
        (interval_row ''J1'' ''data_backup'' 10))) ''J1'')
     = Some (''J1'', ''custom'')"
proof -
  let ?m = "fst (add_scheduler accepting 0 (SchedulerManager_init :: unit SchedulerManager)
           (interval_row ''J1'' ''custom'' 5))"
  let ?old = "\<lparr>trigger = IntervalTrigger [(''seconds'', PInt 5)], args = (''J1'', ''custom''),
         max_instances = 1, paused = False, scheduled_at = 0\<rparr>"
  have old: "jobs ?m ''J1'' = Some ?old"
    by (simp add: add_interval_row_accepting)
  have "update_scheduler accepting 7 ?m (interval_row ''J1'' ''data_backup'' 10) =
      (?m\<lparr>jobs := (jobs ?m)(''J1'' \<mapsto>
         ?old\<lparr>trigger := IntervalTrigger [(''seconds'', PInt 10)], scheduled_at := 7\<rparr>)\<rparr>,
       Inr ())"
    using old
      update_scheduler_modifies [of "interval_row ''J1'' ''data_backup'' 10" "''J1''"
        "''interval''" "[(''seconds'', PInt 10)]" accepting
        "IntervalTrigger [(''seconds'', PInt 10)]" ?m ?old 7]
    by (simp add: interval_row_def create_trigger_interval_accepting)
  then show ?thesis
    by (simp add: add_interval_row_accepting)
qed

text \<open>
  C8, amended. An add whose job id is already registered, and whose trigger resolves,
  succeeds and replaces the prior registration entirely: the new entry holds the new
  trigger and job type, is not paused, and keeps nothing of the old entry; no other id
  is touched. \<open>update_scheduler\<close> on the same input differs: it modifies the trigger
  of the old entry only.
\<close>

theorem C8_duplicate_add_replaces:
  assumes "jobs self i = Some old"
    and "data_id sd = Some i" and "data_job_type sd = Some jt"
    and "data_frequency sd = Some f" and "data_frequency_config sd = Some cfg"
    and "create_trigger lib f cfg = Inr t"
  shows "add_scheduler lib now self sd =
      (self\<lparr>jobs := (jobs self)(i \<mapsto>
          \<lparr>trigger = t, args = (i, jt), max_instances = 1, paused = False,
           scheduled_at = now\<rparr>)\<rparr>, Inr ())
     \<and> update_scheduler lib now self sd =
      (self\<lparr>jobs := (jobs self)(i \<mapsto> old\<lparr>trigger := t, scheduled_at := now\<rparr>)\<rparr>, Inr ())"
  using add_scheduler_registers [OF assms(2-6)]
    update_scheduler_modifies [OF assms(2) assms(4-6) assms(1)]
  by simp

theorem C8_duplicate_add_replaces_witness:
  "snd (add_scheduler accepting 7
      ((SchedulerManager_init :: unit SchedulerManager)\<lparr>jobs := [''J1'' \<mapsto>
          \<lparr>trigger = IntervalTrigger [(''seconds'', PInt 5)], args = (''J1'', ''custom''),
           max_instances = 1, paused = True, scheduled_at = 0\<rparr>]\<rparr>)
      (interval_row ''J1'' ''data_backup'' 10)) = Inr ()
   \<and> jobs (fst (add_scheduler accepting 7
      ((SchedulerManager_init :: unit SchedulerManager)\<lparr>jobs := [''J1'' \<mapsto>
          \<lparr>trigger = IntervalTrigger [(''seconds'', PInt 5)], args = (''J1'', ''custom''),
           max_instances = 1, paused = True, scheduled_at = 0\<rparr>]\<rparr>)
      (interval_row ''J1'' ''data_backup'' 10))) ''J1'' =
      Some \<lparr>trigger = IntervalTrigger [(''seconds'', PInt 10)],
           args = (''J1'', ''data_backup''),
           max_instances = 1, paused = False, scheduled_at = 7\<rparr>"
  using C8_duplicate_add_replaces
    [of "(SchedulerManager_init :: unit SchedulerManager)\<lparr>jobs := [''J1'' \<mapsto>
          \<lparr>trigger = IntervalTrigger [(''seconds'', PInt 5)], args = (''J1'', ''custom''),
           max_instances = 1, paused = True, scheduled_at = 0\<rparr>]\<rparr>"
      "''J1''"
      "\<lparr>trigger = IntervalTrigger [(''seconds'', PInt 5)], args = (''J1'', ''custom''),
           max_instances = 1, paused = True, scheduled_at = 0\<rparr>"
      "interval_row ''J1'' ''data_backup'' 10" "''data_backup''" "''interval''"
      "[(''seconds'', PInt 10)]" accepting "IntervalTrigger [(''seconds'', PInt 10)]" 7]
  by (simp add: interval_row_def create_trigger_interval_accepting)

subsection \<open>At most one running execution per job\<close>

lemma one_at_a_time_init: "one_at_a_time SchedulerManager_init"
  by (simp add: one_at_a_time_def SchedulerManager_init_def)

lemma one_at_a_time_add:
  "one_at_a_time self \<Longrightarrow> one_at_a_time (fst (add_scheduler lib now self sd))"
  by (auto simp: one_at_a_time_def add_scheduler_def add_job_def
      split: option.splits sum.splits if_splits)

lemma one_at_a_time_update:
  "one_at_a_time self \<Longrightarrow> one_at_a_time (fst (update_scheduler lib now self sd))"
  by (auto simp: one_at_a_time_def update_scheduler_def modify_job_def
      split: option.splits sum.splits if_splits)

lemma one_at_a_time_pause:
  "one_at_a_time self \<Longrightarrow> one_at_a_time (fst (pause_scheduler self i))"
  by (auto simp: one_at_a_time_def pause_scheduler_def pause_job_def
      split: option.splits sum.splits if_splits)

lemma one_at_a_time_resume:
  "one_at_a_time self \<Longrightarrow> one_at_a_time (fst (resume_scheduler self i))"
  by (auto simp: one_at_a_time_def resume_scheduler_def resume_job_def
      split: option.splits sum.splits if_splits)

lemma one_at_a_time_remove:
  "one_at_a_time self \<Longrightarrow> one_at_a_time (fst (remove_scheduler self i))"
  by (auto simp: one_at_a_time_def remove_scheduler_def remove_job_def
      split: option.splits sum.splits if_splits)

lemma one_at_a_time_submit:
  "one_at_a_time self \<Longrightarrow> one_at_a_time (fst (submit_job self i))"
  by (auto simp: one_at_a_time_def submit_job_def
      split: option.splits sum.splits if_splits)

lemma one_at_a_time_done:
  "one_at_a_time self \<Longrightarrow> one_at_a_time (job_done self i)"
  by (auto simp: one_at_a_time_def job_done_def)

lemma one_at_a_time_step:
  "one_at_a_time self \<Longrightarrow> one_at_a_time (fst (apply_operation lib (self, w) op))"
proof (cases op)
  case (Fire i e)
  assume "one_at_a_time self"
  then have "one_at_a_time (fst (submit_job self i))"
    by (rule one_at_a_time_submit)
  then show ?thesis
    using Fire by (cases "submit_job self i") (auto split: option.splits)
qed (simp_all add: one_at_a_time_add one_at_a_time_update one_at_a_time_pause
      one_at_a_time_resume one_at_a_time_remove one_at_a_time_done restore_scheduler_def,
     simp_all add: one_at_a_time_def start_def shutdown_def set_log_callback_def)

lemma one_at_a_time_run:
  "one_at_a_time (fst st) \<Longrightarrow> one_at_a_time (fst (foldl (apply_operation lib) st ops))"
proof (induction ops arbitrary: st)
  case Nil
  then show ?case by simp
next
  case (Cons op ops)
  obtain self w where st: "st = (self, w)"
    by (cases st)
  with Cons.prems have "one_at_a_time (fst (apply_operation lib (self, w) op))"
    by (simp add: one_at_a_time_step)
  then show ?case
    using Cons.IH st by simp
qed

lemma submit_job_full:
  "one_at_a_time self \<Longrightarrow> instances self i = 1 \<Longrightarrow> submit_job self i = (self, None)"
  by (auto simp: one_at_a_time_def submit_job_def split: option.splits)

text \<open>
  C1. Whatever is done to a manager, in any order (method calls, fire events, ends of
  executions), no job id ever has more than one running execution; and a fire event
  for a job that has a running execution is dropped: it starts nothing and leaves the
  manager as it was, so nothing is queued for later.
\<close>

theorem C1_at_most_one_running_execution:
  "instances (fst (run_engine lib ops w)) job_id \<le> 1
   \<and> (instances (fst (run_engine lib ops w)) job_id = 1 \<longrightarrow>
        submit_job (fst (run_engine lib ops w)) job_id = (fst (run_engine lib ops w), None))"
proof -
  have "one_at_a_time (fst (run_engine lib ops w))"
    unfolding run_engine_def by (rule one_at_a_time_run) (simp add: one_at_a_time_init)
  then show ?thesis
    by (auto simp: submit_job_full) (simp add: one_at_a_time_def)
qed

theorem C1_at_most_one_running_execution_witness:
  "instances (fst (run_engine accepting
      [Start, Add 0 (interval_row ''J1'' ''custom'' 5), Fire ''J1'' demo_env,
       Fire ''J1'' demo_env] ())) ''J1'' = 1
   \<and> submit_job (fst (run_engine accepting
      [Start, Add 0 (interval_row ''J1'' ''custom'' 5), Fire ''J1'' demo_env,
       Fire ''J1'' demo_env] ())) ''J1''
     = (fst (run_engine accepting
      [Start, Add 0 (interval_row ''J1'' ''custom'' 5), Fire ''J1'' demo_env,
       Fire ''J1'' demo_env] ()), None)"
proof -
  have "instances (fst (run_engine accepting
      [Start, Add 0 (interval_row ''J1'' ''custom'' 5), Fire ''J1'' demo_env,
       Fire ''J1'' demo_env] ())) ''J1'' = 1"
    by (simp add: run_engine_def add_interval_row_accepting submit_job_def start_def
        SchedulerManager_init_def)
  then show ?thesis
    using C1_at_most_one_running_execution [of accepting
      "[Start, Add 0 (interval_row ''J1'' ''custom'' 5), Fire ''J1'' demo_env,
       Fire ''J1'' demo_env]" "()" "''J1''"]
    by simp
qed

subsection \<open>The log callback of the process\<close>

lemma log_callback_add:
  "log_callback (fst (add_scheduler lib now self sd)) = log_callback self"
  by (simp add: add_scheduler_def split: option.splits sum.splits)

lemma log_callback_update:
  "log_callback (fst (update_scheduler lib now self sd)) = log_callback self"
  by (simp add: update_scheduler_def split: option.splits sum.splits)

lemma log_callback_pause:
  "log_callback (fst (pause_scheduler self i)) = log_callback self"
  by (simp add: pause_scheduler_def split: sum.splits)

lemma log_callback_resume:
  "log_callback (fst (resume_scheduler self i)) = log_callback self"
  by (simp add: resume_scheduler_def split: sum.splits)

lemma log_callback_remove:
  "log_callback (fst (remove_scheduler self i)) = log_callback self"
  by (simp add: remove_scheduler_def split: sum.splits)

lemma log_callback_restore_all:
  "log_callback
     (foldl (\<lambda>m (now, sd).
         if (case data_is_active sd of None \<Rightarrow> True | Some v \<Rightarrow> truthy v)
         then restore_scheduler lib now m sd else m) m0 rows) = log_callback m0"
  by (induction rows arbitrary: m0)
     (simp_all add: restore_scheduler_def log_callback_add split: prod.splits)

lemma no_recorder_startup:
  "no_recorder (lifespan_startup lib schedulers a)"
  by (cases schedulers)
     (simp_all add: no_recorder_def lifespan_startup_def log_callback_restore_all
        start_def SchedulerManager_init_def)

lemma get_db_startup: "get_db (lifespan_startup lib schedulers a) = get_db a"
  by (simp add: lifespan_startup_def)

lemma on_manager_keeps:
  assumes "\<And>m. log_callback (fst (method m)) = log_callback m" and "no_recorder a"
  shows "no_recorder (fst (on_manager a method))"
    and "get_db (fst (on_manager a method)) = get_db a"
proof -
  show "no_recorder (fst (on_manager a method))"
  proof (cases "scheduler_manager a")
    case None
    then show ?thesis
      by (simp add: on_manager_def no_recorder_def)
  next
    case (Some m)
    with assms(2) have "log_callback m = None"
      by (simp add: no_recorder_def)
    with assms(1) [of m] have "log_callback (fst (method m)) = None"
      by simp
    with Some show ?thesis
      by (cases "method m") (simp add: on_manager_def no_recorder_def)
  qed
  show "get_db (fst (on_manager a method)) = get_db a"
    by (cases "scheduler_manager a") (simp_all add: on_manager_def split: prod.splits)
qed

lemma fire_without_recorder:
  assumes "log_callback m = None"
  shows "apply_operation lib (m, d) (Fire i e) = (fst (submit_job m i), d)"
proof (cases "submit_job m i")
  case (Pair m' started)
  then have "log_callback m' = None"
    using log_callback_submit [of m i] assms by simp
  then show ?thesis
    using Pair by (cases started) (auto simp: execute_job_without_callback)
qed

lemma app_step_keeps:
  assumes "no_recorder a"
  shows "no_recorder (app_step lib a ev) \<and> get_db (app_step lib a ev) = get_db a"
proof (cases ev)
  case (Startup schedulers)
  then show ?thesis
    by (simp add: no_recorder_startup get_db_startup)
next
  case ShutdownApp
  then show ?thesis
    using assms
    by (simp add: lifespan_shutdown_def no_recorder_def shutdown_def split: option.splits)
next
  case (CreateScheduler now sd)
  then show ?thesis
    using on_manager_keeps [of "\<lambda>m. add_scheduler lib now m sd" a] assms
    by (simp add: log_callback_add)
next
  case (UpdateScheduler now sd)
  then show ?thesis
    using on_manager_keeps [of "\<lambda>m. update_scheduler lib now m sd" a] assms
    by (simp add: log_callback_update)
next
  case (PauseScheduler i)
  then show ?thesis
    using on_manager_keeps [of "\<lambda>m. pause_scheduler m i" a] assms
    by (simp add: log_callback_pause)
next
  case (ResumeScheduler i)
  then show ?thesis
    using on_manager_keeps [of "\<lambda>m. resume_scheduler m i" a] assms
    by (simp add: log_callback_resume)
next
  case (DeleteScheduler i)
  then show ?thesis
    using on_manager_keeps [of "\<lambda>m. remove_scheduler m i" a] assms
    by (simp add: log_callback_remove)
next
  case (JobFires i e)
  show ?thesis
  proof (cases "scheduler_manager a")
    case None
    then show ?thesis
      using JobFires assms by simp
  next
    case (Some m)
    with assms have cb: "log_callback m = None"
      by (simp add: no_recorder_def)
    show ?thesis
      using JobFires Some cb
      by (simp add: fire_without_recorder no_recorder_def log_callback_submit
          del: apply_operation.simps)
  qed
next
  case (JobFinishes i)
  then show ?thesis
    using assms by (simp add: no_recorder_def job_done_def split: option.splits)
qed

lemma run_keeps:
  "no_recorder a \<Longrightarrow>
   no_recorder (foldl (app_step lib) a evs) \<and> get_db (foldl (app_step lib) a evs) = get_db a"
proof (induction evs arbitrary: a)
  case Nil
  then show ?case by simp
next
  case (Cons ev evs)
  from Cons.prems have step: "no_recorder (app_step lib a ev)"
      and same: "get_db (app_step lib a ev) = get_db a"
    by (simp_all add: app_step_keeps)
  from Cons.IH [OF step] same show ?case
    by simp
qed

text \<open>
  C9. The guard at the end of the module body is evaluated while the global
  \<open>scheduler_manager\<close> is still \<open>None\<close>, and no later event (startup, shutdown, a
  request, a fire event) sets a log callback: the manager of the process has none at
  any time, and no execution ever calls \<open>job_execution_callback\<close>, so the database
  behind it stays as it was.
\<close>

theorem C9_log_callback_never_set:
  "scheduler_manager (main_module d) = None
   \<and> (case scheduler_manager (run_app lib d evs) of
         None \<Rightarrow> True
       | Some m \<Rightarrow> log_callback m = None)
   \<and> get_db (run_app lib d evs) = d"
proof -
  have start: "no_recorder (main_module d)" and "get_db (main_module d) = d"
    by (simp_all add: main_module_def no_recorder_def)
  with run_keeps [OF start, of lib evs] show ?thesis
    by (simp add: run_app_def no_recorder_def main_module_def)
qed

lemma interval_row_active: "data_is_active (interval_row i jt n) = Some (PBool True)"
  by (simp add: interval_row_def)

theorem C9_log_callback_never_set_witness:
  "map_option log_callback (scheduler_manager (run_app accepting empty_db
      [Startup (Some [(0, interval_row ''J1'' ''custom'' 5)]), JobFires ''J1'' demo_env]))
     = Some None
   \<and> map_option (\<lambda>m. instances m ''J1'') (scheduler_manager (run_app accepting empty_db
      [Startup (Some [(0, interval_row ''J1'' ''custom'' 5)]), JobFires ''J1'' demo_env]))
     = Some 1
   \<and> callback_calls (get_db (run_app accepting empty_db
      [Startup (Some [(0, interval_row ''J1'' ''custom'' 5)]), JobFires ''J1'' demo_env])) = 0
   \<and> logs (get_db (run_app accepting empty_db
      [Startup (Some [(0, interval_row ''J1'' ''custom'' 5)]), JobFires ''J1'' demo_env])) = []"
proof -
  let ?a = "run_app accepting empty_db
      [Startup (Some [(0, interval_row ''J1'' ''custom'' 5)]), JobFires ''J1'' demo_env]"
  have "map_option (\<lambda>m. instances m ''J1'') (scheduler_manager ?a) = Some 1"
    by (simp add: run_app_def main_module_def lifespan_startup_def restore_scheduler_def
        add_interval_row_accepting interval_row_active submit_job_def start_def
        SchedulerManager_init_def)
  then show ?thesis
    using C9_log_callback_never_set [of empty_db accepting
      "[Startup (Some [(0, interval_row ''J1'' ''custom'' 5)]), JobFires ''J1'' demo_env]"]
    by (auto simp: empty_db_def split: option.splits)
qed

subsection \<open>Interval triggers and restoration\<close>

lemma add_scheduler_ignores_last_run:
  "add_scheduler lib now self (sd\<lparr>data_last_run := last_run\<rparr>) = add_scheduler lib now self sd"
  by (simp add: add_scheduler_def split: option.splits sum.splits)


text \<open>
  C7, as the claim states it, fails for a restore: \<open>restore_scheduler\<close> does not read
  \<open>last_run\<close>. A job of 60 seconds with \<open>last_run\<close> 430 that is restored at time 1000
  is registered exactly as the same job without a \<open>last_run\<close>, and first fires at
  1060.
\<close>

theorem C7_counterexample:
  "restore_scheduler accepting 1000 (SchedulerManager_init :: unit SchedulerManager)
     ((interval_row ''J1'' ''custom'' 60)\<lparr>data_last_run := Some 430\<rparr>)
   = restore_scheduler accepting 1000 (SchedulerManager_init :: unit SchedulerManager)
     (interval_row ''J1'' ''custom'' 60)
   \<and> map_option (\<lambda>j. fire_time (scheduled_at j) [(''seconds'', PInt 60)] 0)
       (jobs (restore_scheduler accepting 1000 (SchedulerManager_init :: unit SchedulerManager)
          ((interval_row ''J1'' ''custom'' 60)\<lparr>data_last_run := Some 430\<rparr>)) ''J1'')
     = Some 1060"
  by (simp add: restore_scheduler_def add_scheduler_ignores_last_run
      add_interval_row_accepting fire_time_def interval_length_def unit_of_def)

text \<open>
  C7, amended. For every valid interval configuration that the library accepts,
  \<open>add_scheduler\<close> registers \<open>IntervalTrigger(**frequency_config)\<close> at the time of the
  call, and \<open>restore_scheduler\<close> does the same whatever \<open>last_run\<close> is. The fire
  times of that trigger form an infinite, strictly increasing sequence spaced by the sum
  of the given seconds, minutes, hours and days, starting from the time of the
  registration or restoration.
\<close>

theorem C7_interval_fire_times:
  assumes "valid_interval_config cfg"
    and "data_id sd = Some i" and "data_job_type sd = Some jt"
    and "data_frequency sd = Some ''interval''" and "data_frequency_config sd = Some cfg"
    and "lib (IntervalTrigger cfg) = None"
  shows "jobs (fst (add_scheduler lib now self sd)) i =
       Some \<lparr>trigger = IntervalTrigger cfg, args = (i, jt), max_instances = 1,
             paused = False, scheduled_at = now\<rparr>
     \<and> restore_scheduler lib now self (sd\<lparr>data_last_run := last_run\<rparr>)
         = fst (add_scheduler lib now self sd)
     \<and> interval_length cfg =
         unit_of cfg ''seconds'' + 60 * unit_of cfg ''minutes''
           + 3600 * unit_of cfg ''hours'' + 86400 * unit_of cfg ''days''
     \<and> fire_time now cfg 0 = now + real_of_int (interval_length cfg)
     \<and> (\<forall>k. fire_time now cfg (Suc k) - fire_time now cfg k
              = real_of_int (interval_length cfg))
     \<and> (\<forall>k. fire_time now cfg k < fire_time now cfg (Suc k))"
proof -
  from assms(6) have "create_trigger lib ''interval'' cfg = Inr (IntervalTrigger cfg)"
    by (simp add: create_trigger_def construct_def)
  from add_scheduler_registers [OF assms(2-5) this, of now self]
  have reg: "jobs (fst (add_scheduler lib now self sd)) i =
       Some \<lparr>trigger = IntervalTrigger cfg, args = (i, jt), max_instances = 1,
             paused = False, scheduled_at = now\<rparr>"
    by simp
  from assms(1) have pos: "0 < interval_length cfg"
    by (simp add: valid_interval_config_def)
  have step: "fire_time now cfg (Suc k) - fire_time now cfg k
      = real_of_int (interval_length cfg)" for k
    by (simp add: fire_time_def algebra_simps)
  have mono: "fire_time now cfg k < fire_time now cfg (Suc k)" for k
    using step [of k] pos by simp
  have rest: "restore_scheduler lib now self (sd\<lparr>data_last_run := last_run\<rparr>)
      = fst (add_scheduler lib now self sd)"
    by (simp add: restore_scheduler_def add_scheduler_ignores_last_run)
  have len: "interval_length cfg =
      unit_of cfg ''seconds'' + 60 * unit_of cfg ''minutes''
        + 3600 * unit_of cfg ''hours'' + 86400 * unit_of cfg ''days''"
    by (simp add: interval_length_def)
  have first: "fire_time now cfg 0 = now + real_of_int (interval_length cfg)"
    by (simp add: fire_time_def)
  from reg rest len first step mono show ?thesis
    by (intro conjI allI)
qed

theorem C7_interval_fire_times_witness:
  "jobs (fst (add_scheduler accepting 1000 (SchedulerManager_init :: unit SchedulerManager)
       (interval_row ''J1'' ''custom'' 60))) ''J1'' =
       Some \<lparr>trigger = IntervalTrigger [(''seconds'', PInt 60)], args = (''J1'', ''custom''),
             max_instances = 1, paused = False, scheduled_at = 1000\<rparr>
   \<and> fire_time 1000 [(''seconds'', PInt 60)] 0 = 1060
   \<and> fire_time 1000 [(''seconds'', PInt 60)] 0 < fire_time 1000 [(''seconds'', PInt 60)] 1"
  using C7_interval_fire_times
    [of "[(''seconds'', PInt 60)]" "interval_row ''J1'' ''custom'' 60" "''J1''" "''custom''"
      accepting 1000 "SchedulerManager_init :: unit SchedulerManager" None]
  by (simp add: valid_interval_config_def valid_keys_def contains_def interval_length_def
      unit_of_def interval_row_def accepting_def fire_time_def)

end
